theory Spec2Isabelle
  imports Complex_Main "HOL-Library.Word"
begin

unbundle bit_operations_syntax

section \<open>The speex noise-suppression binding (src/python.cpp)\<close>

text \<open>
  The file binds one class, \<^verbatim>\<open>AudioProcessor\<close>, which owns a
  \<^verbatim>\<open>SpeexPreprocessState\<close> and passes fixed-size chunks of 16-bit samples through
  \<^verbatim>\<open>speex_preprocess_run\<close>. The model is a store with explicit addresses: the
  preprocessor state, the temporary \<^verbatim>\<open>std::vector<int16_t>\<close> and the Python
  \<^verbatim>\<open>bytes\<close> objects live in one heap, so that what a call reads, writes and
  allocates can be stated. The speex library itself is not part of the repository; it
  is a parameter of every definition. Running out of memory in \<^verbatim>\<open>std::vector\<close> or
  in the Python allocator is not modelled, nor is the destructor, which releases the
  state.
\<close>

subsection \<open>Machine types\<close>

type_synonym byte = "8 word"
type_synonym int16 = "16 word"

text \<open>
  \<^verbatim>\<open>int\<close> is 32 bits wide; \<open>sint\<close> reads its value. Signed overflow is undefined
  behaviour in C++; the model takes the two's-complement result that the usual targets
  compute, which is what multiplication on \<open>32 word\<close> gives.
\<close>

type_synonym cint = "32 word"

text \<open>
  A \<^verbatim>\<open>float\<close>. The binding only compares it with zero and hands it on, so the finite
  values are taken from \<open>real\<close>; the comparison is the IEEE one, false on a NaN.
\<close>

datatype cfloat = Finite real | PosInf | NegInf | NaN

fun float_gt_zero :: "cfloat \<Rightarrow> bool" where
  "float_gt_zero (Finite r) = (0 < r)"
| "float_gt_zero PosInf = True"
| "float_gt_zero NegInf = False"
| "float_gt_zero NaN = False"

subsection \<open>Samples in memory\<close>

text \<open>
  The vector's storage is read and written as bytes (\<^verbatim>\<open>memcpy\<close>,
  \<^verbatim>\<open>reinterpret_cast<const char *>\<close>). Two bytes make one sample, low byte first
  (the host order of the little-endian targets the binding is built for).
\<close>

definition sample_of :: "byte \<Rightarrow> byte \<Rightarrow> int16" where
  "sample_of lo hi = (ucast lo) OR (push_bit 8 (ucast hi))"

fun samples_of_bytes :: "byte list \<Rightarrow> int16 list" where
  "samples_of_bytes (lo # hi # bs) = sample_of lo hi # samples_of_bytes bs"
| "samples_of_bytes bs = []"

fun bytes_of_samples :: "int16 list \<Rightarrow> byte list" where
  "bytes_of_samples [] = []"
| "bytes_of_samples (s # ss) = ucast s # ucast (drop_bit 8 s) # bytes_of_samples ss"

subsection \<open>The store\<close>

type_synonym addr = nat

text \<open>Address 0 is \<^verbatim>\<open>NULL\<close>.\<close>

datatype 'st obj =
    PyBytes "byte list"          \<comment> \<open>an immutable Python \<^verbatim>\<open>bytes\<close> object\<close>
  | Int16Vector "int16 list"     \<comment> \<open>the storage of a \<^verbatim>\<open>std::vector<int16_t>\<close>\<close>
  | Preprocess 'st               \<comment> \<open>a \<^verbatim>\<open>SpeexPreprocessState\<close>\<close>

text \<open>The requests that the constructor sends through \<^verbatim>\<open>speex_preprocess_ctl\<close>.\<close>

datatype preprocess_request =
    SET_DENOISE cint
  | SET_NOISE_SUPPRESS cint
  | SET_AGC cint
  | SET_AGC_LEVEL cfloat

text \<open>
  Every call into the library is recorded, oldest first: the arguments, for
  \<^verbatim>\<open>speex_preprocess_state_init\<close> also the handle returned, for
  \<^verbatim>\<open>speex_preprocess_run\<close> also the samples found in the buffer on entry.
\<close>

datatype call =
    StateInit cint cint addr
  | Ctl addr preprocess_request
  | Run addr addr "int16 list"

record 'st world =
  heap :: "addr \<rightharpoonup> 'st obj"
  brk :: addr                    \<comment> \<open>the next address the allocator hands out\<close>
  calls :: "call list"

definition alloc :: "'st obj \<Rightarrow> 'st world \<Rightarrow> addr \<times> 'st world" where
  "alloc v w = (brk w, w\<lparr>heap := (heap w)(brk w \<mapsto> v), brk := Suc (brk w)\<rparr>)"

definition free :: "addr \<Rightarrow> 'st world \<Rightarrow> 'st world" where
  "free a w = w\<lparr>heap := (heap w)(a := None)\<rparr>"

text \<open>Allocated addresses are below \<open>brk\<close> and none is \<^verbatim>\<open>NULL\<close>.\<close>

definition wf_world :: "'st world \<Rightarrow> bool" where
  "wf_world w = (0 < brk w \<and> dom (heap w) \<subseteq> {a. 0 < a \<and> a < brk w})"

subsection \<open>The speex preprocessor, as the binding sees it\<close>

text \<open>
  The library is opaque: a type \<open>'st\<close> of state contents and three functions on it.
  \<open>state_init\<close> gives the contents of a new state for a frame size and a sampling
  rate, or \<open>None\<close> where the library returns \<^verbatim>\<open>NULL\<close>; \<open>ctl\<close> applies a request;
  \<open>run\<close> processes one frame and returns the new contents, the samples it leaves in
  the buffer and the voice-activity flag.
\<close>

record 'st speex =
  state_init :: "cint \<Rightarrow> cint \<Rightarrow> 'st option"
  ctl :: "'st \<Rightarrow> preprocess_request \<Rightarrow> 'st"
  run :: "'st \<Rightarrow> int16 list \<Rightarrow> 'st \<times> int16 list \<times> cint"

definition speex_preprocess_state_init ::
  "'st speex \<Rightarrow> cint \<Rightarrow> cint \<Rightarrow> 'st world \<Rightarrow> addr \<times> 'st world" where
  "speex_preprocess_state_init lib frame_size sampling_rate w =
     (case state_init lib frame_size sampling_rate of
        None \<Rightarrow> (0, w\<lparr>calls := calls w @ [StateInit frame_size sampling_rate 0]\<rparr>)
      | Some s \<Rightarrow>
          (let (h, w') = alloc (Preprocess s) w
           in (h, w'\<lparr>calls := calls w' @ [StateInit frame_size sampling_rate h]\<rparr>)))"

text \<open>
  \<^verbatim>\<open>speex_preprocess_ctl\<close> and \<^verbatim>\<open>speex_preprocess_run\<close> touch the state behind
  the handle and, for \<^verbatim>\<open>run\<close>, the buffer behind the pointer, and nothing else. The
  library gets a pointer, not a container: whatever it computes, the buffer keeps its
  number of elements (\<open>write_back\<close>). A handle or pointer that does not lead to an
  object of the right kind leaves the heap as it is.
\<close>

definition write_back :: "int16 list \<Rightarrow> int16 list \<Rightarrow> int16 list" where
  "write_back buf out = take (length buf) out @ drop (length out) buf"

definition speex_preprocess_ctl ::
  "'st speex \<Rightarrow> addr \<Rightarrow> preprocess_request \<Rightarrow> 'st world \<Rightarrow> 'st world" where
  "speex_preprocess_ctl lib h req w =
     (case heap w h of
        Some (Preprocess s) \<Rightarrow>
          w\<lparr>heap := (heap w)(h \<mapsto> Preprocess (ctl lib s req)),
            calls := calls w @ [Ctl h req]\<rparr>
      | _ \<Rightarrow> w\<lparr>calls := calls w @ [Ctl h req]\<rparr>)"

definition speex_preprocess_run ::
  "'st speex \<Rightarrow> addr \<Rightarrow> addr \<Rightarrow> 'st world \<Rightarrow> cint \<times> 'st world" where
  "speex_preprocess_run lib h x w =
     (case (heap w h, heap w x) of
        (Some (Preprocess s), Some (Int16Vector buf)) \<Rightarrow>
          (let (s', out, vad) = run lib s buf
           in (vad, w\<lparr>heap := (heap w)(h \<mapsto> Preprocess s', x \<mapsto> Int16Vector (write_back buf out)),
                      calls := calls w @ [Run h x buf]\<rparr>))
      | (_, Some (Int16Vector buf)) \<Rightarrow> (0, w\<lparr>calls := calls w @ [Run h x buf]\<rparr>)
      | _ \<Rightarrow> (0, w\<lparr>calls := calls w @ [Run h x []]\<rparr>))"

subsection \<open>Errors\<close>

text \<open>
  One constructor for each \<^verbatim>\<open>throw\<close> of the file, named after the condition it
  reports; \<open>exception_class\<close> and \<open>what\<close> give the C++ exception and its message.
  \<open>NotBytes\<close> is the refusal of the binding layer to call \<^verbatim>\<open>ProcessChunk\<close> with
  an argument that is not a \<^verbatim>\<open>bytes\<close> object (the parameter has type
  \<^verbatim>\<open>py::bytes\<close>).
\<close>

datatype error =
    InvalidArgument
  | InitializationFailure
  | NotOneDimensional
  | ShapeMismatch int int
  | NotBytes

datatype cpp_exception = invalid_argument | runtime_error | type_error

fun exception_class :: "error \<Rightarrow> cpp_exception" where
  "exception_class InvalidArgument = invalid_argument"
| "exception_class InitializationFailure = runtime_error"
| "exception_class NotOneDimensional = runtime_error"
| "exception_class (ShapeMismatch n m) = runtime_error"
| "exception_class NotBytes = type_error"

fun is_ShapeMismatch :: "error + 'a \<Rightarrow> bool" where
  "is_ShapeMismatch (Inl (ShapeMismatch n m)) = True"
| "is_ShapeMismatch r = False"

text \<open>\<^verbatim>\<open>std::to_string\<close> on an integer.\<close>

fun digits :: "nat \<Rightarrow> string" where
  "digits n =
     (if n < 10 then [char_of (48 + n)]
      else digits (n div 10) @ [char_of (48 + n mod 10)])"

declare digits.simps [simp del]

definition to_string :: "int \<Rightarrow> string" where
  "to_string i = (if i < 0 then CHR ''-'' # digits (nat (- i)) else digits (nat i))"

fun what :: "error \<Rightarrow> string" where
  "what InvalidArgument = ''chunk_size_samples must be positive.''"
| "what InitializationFailure = ''Failed to initialize Speex preprocessor state.''"
| "what NotOneDimensional = ''Input audio must be a 1D bytes array.''"
| "what (ShapeMismatch n m) =
     ''Input audio size ('' @ to_string n @
     '' bytes) does not match configured chunk size ('' @ to_string m @ '' bytes).''"
| "what NotBytes = ''incompatible function arguments''"

subsection \<open>AudioProcessor\<close>

record AudioProcessor =
  state :: addr
  m_chunk_size_samples :: cint
  m_chunk_size_bytes :: cint

record ProcessedAudioChunk =
  audio :: addr                  \<comment> \<open>the \<^verbatim>\<open>py::bytes\<close> holding the processed audio\<close>

text \<open>
  The constructor. The member initialisers run first, so the byte size is computed
  before the argument is checked. An exception leaves no object behind.
\<close>

definition AudioProcessor_init ::
  "'st speex \<Rightarrow> cint \<Rightarrow> cfloat \<Rightarrow> cint \<Rightarrow> 'st world \<Rightarrow> (error + AudioProcessor) \<times> 'st world" where
  "AudioProcessor_init lib chunk_size_samples auto_gain noise_suppression w =
     (let this = \<lparr>state = 0,
                  m_chunk_size_samples = chunk_size_samples,
                  m_chunk_size_bytes = chunk_size_samples * 2\<rparr>
      in if sint chunk_size_samples \<le> 0 then (Inl InvalidArgument, w)
         else
           (let (h, w1) = speex_preprocess_state_init lib (m_chunk_size_samples this) 16000 w;
                this = this\<lparr>state := h\<rparr>
            in if state this = 0 then (Inl InitializationFailure, w1)
               else
                 (let noise_state = (if noise_suppression = 0 then 0 else 1);
                      w2 = speex_preprocess_ctl lib (state this) (SET_DENOISE noise_state) w1;
                      w3 = (if noise_suppression \<noteq> 0
                            then speex_preprocess_ctl lib (state this)
                                   (SET_NOISE_SUPPRESS noise_suppression) w2
                            else w2);
                      agc_enabled = (if float_gt_zero auto_gain then 1 else 0);
                      w4 = speex_preprocess_ctl lib (state this) (SET_AGC agc_enabled) w3;
                      w5 = (if float_gt_zero auto_gain
                            then speex_preprocess_ctl lib (state this)
                                   (SET_AGC_LEVEL auto_gain) w4
                            else w4)
                  in (Inr this, w5))))"

text \<open>
  \<^verbatim>\<open>py::buffer(audio_input_py).request()\<close>: the buffer view of a \<^verbatim>\<open>bytes\<close>
  object has one dimension and as many items as the object has bytes.
\<close>

record buffer_info =
  ptr :: addr
  ndim :: int
  size :: int

definition request :: "addr \<Rightarrow> byte list \<Rightarrow> buffer_info" where
  "request a bs = \<lparr>ptr = a, ndim = 1, size = int (length bs)\<rparr>"

text \<open>
  \<^verbatim>\<open>memcpy\<close> of \<open>n\<close> bytes from a \<^verbatim>\<open>bytes\<close> object into the storage of a
  vector. The class invariant keeps the copy inside both objects
  (\<open>n\<close> is the length of the source and the size of the storage).
\<close>

definition memcpy :: "addr \<Rightarrow> addr \<Rightarrow> nat \<Rightarrow> 'st world \<Rightarrow> 'st world" where
  "memcpy dst src n w =
     (case (heap w dst, heap w src) of
        (Some (Int16Vector v), Some (PyBytes bs)) \<Rightarrow>
          w\<lparr>heap := (heap w)(dst \<mapsto>
               Int16Vector (samples_of_bytes (take n bs @ drop n (bytes_of_samples v))))\<rparr>
      | _ \<Rightarrow> w)"

text \<open>
  The body of \<^verbatim>\<open>ProcessChunk\<close> from the first check on, for any buffer view.
  The vector is destroyed when the function returns.
\<close>

definition ProcessChunk_checked ::
  "'st speex \<Rightarrow> AudioProcessor \<Rightarrow> buffer_info \<Rightarrow> 'st world
     \<Rightarrow> (error + ProcessedAudioChunk) \<times> 'st world" where
  "ProcessChunk_checked lib this input_buf_info w =
     (if ndim input_buf_info \<noteq> 1 then (Inl NotOneDimensional, w)
      else if size input_buf_info \<noteq> sint (m_chunk_size_bytes this)
      then (Inl (ShapeMismatch (size input_buf_info) (sint (m_chunk_size_bytes this))), w)
      else
        (let (temp_audio_buffer, w1) =
               alloc (Int16Vector (replicate (nat (sint (m_chunk_size_samples this))) 0)) w;
             w2 = memcpy temp_audio_buffer (ptr input_buf_info)
                    (nat (sint (m_chunk_size_bytes this))) w1;
             (vad, w3) = speex_preprocess_run lib (state this) temp_audio_buffer w2;
             processed = (case heap w3 temp_audio_buffer of
                            Some (Int16Vector v) \<Rightarrow>
                              take (nat (sint (m_chunk_size_bytes this))) (bytes_of_samples v)
                          | _ \<Rightarrow> []);
             (processed_audio_py_obj, w4) = alloc (PyBytes processed) w3;
             w5 = free temp_audio_buffer w4
         in (Inr \<lparr>audio = processed_audio_py_obj\<rparr>, w5)))"

definition ProcessChunk ::
  "'st speex \<Rightarrow> AudioProcessor \<Rightarrow> addr \<Rightarrow> 'st world
     \<Rightarrow> (error + ProcessedAudioChunk) \<times> 'st world" where
  "ProcessChunk lib this audio_input_py w =
     (case heap w audio_input_py of
        Some (PyBytes bs) \<Rightarrow> ProcessChunk_checked lib this (request audio_input_py bs) w
      | _ \<Rightarrow> (Inl NotBytes, w))"

subsection \<open>Using a processor\<close>

text \<open>
  What the Python caller does with one chunk: it makes a \<^verbatim>\<open>bytes\<close> object, calls
  \<^verbatim>\<open>ProcessChunk\<close> and reads the \<^verbatim>\<open>audio\<close> attribute of the result.
\<close>

definition bytes_at :: "'st world \<Rightarrow> addr \<Rightarrow> byte list" where
  "bytes_at w a = (case heap w a of Some (PyBytes bs) \<Rightarrow> bs | _ \<Rightarrow> [])"

definition submit ::
  "'st speex \<Rightarrow> AudioProcessor \<Rightarrow> byte list \<Rightarrow> 'st world \<Rightarrow> (error + byte list) \<times> 'st world" where
  "submit lib this chunk w =
     (let (a, w1) = alloc (PyBytes chunk) w;
          (r, w2) = ProcessChunk lib this a w1
      in (case r of Inl e \<Rightarrow> Inl e | Inr res \<Rightarrow> Inr (bytes_at w2 (audio res)), w2))"

fun feed ::
  "'st speex \<Rightarrow> AudioProcessor \<Rightarrow> byte list list \<Rightarrow> 'st world
     \<Rightarrow> (error + byte list) list \<times> 'st world" where
  "feed lib this [] w = ([], w)"
| "feed lib this (c # cs) w =
     (let (r, w1) = submit lib this c w;
          (rs, w2) = feed lib this cs w1
      in (r # rs, w2))"

text \<open>
  Two processors in one store, each with its own queue of chunks. The schedule says
  whose turn it is (\<open>True\<close>: the first); a turn of a processor whose queue is empty is
  skipped, and when the schedule ends the first processor finishes its queue, then the
  second.
\<close>

fun feed2 ::
  "'st speex \<Rightarrow> AudioProcessor \<Rightarrow> AudioProcessor \<Rightarrow> bool list \<Rightarrow> byte list list \<Rightarrow> byte list list
     \<Rightarrow> 'st world \<Rightarrow> ((error + byte list) list \<times> (error + byte list) list) \<times> 'st world" where
  "feed2 lib p1 p2 [] cs1 cs2 w =
     (let (r1, w1) = feed lib p1 cs1 w;
          (r2, w2) = feed lib p2 cs2 w1
      in ((r1, r2), w2))"
| "feed2 lib p1 p2 (True # sched) (c # cs1) cs2 w =
     (let (r, w1) = submit lib p1 c w;
          ((r1, r2), w2) = feed2 lib p1 p2 sched cs1 cs2 w1
      in ((r # r1, r2), w2))"
| "feed2 lib p1 p2 (True # sched) [] cs2 w = feed2 lib p1 p2 sched [] cs2 w"
| "feed2 lib p1 p2 (False # sched) cs1 (c # cs2) w =
     (let (r, w1) = submit lib p2 c w;
          ((r1, r2), w2) = feed2 lib p1 p2 sched cs1 cs2 w1
      in ((r1, r # r2), w2))"
| "feed2 lib p1 p2 (False # sched) cs1 [] w = feed2 lib p1 p2 sched cs1 [] w"

subsection \<open>Reference behaviour\<close>

text \<open>The requests of a construction, in the order they are sent.\<close>

definition init_requests :: "cfloat \<Rightarrow> cint \<Rightarrow> preprocess_request list" where
  "init_requests auto_gain noise_suppression =
     [SET_DENOISE (if noise_suppression = 0 then 0 else 1)] @
     (if noise_suppression \<noteq> 0 then [SET_NOISE_SUPPRESS noise_suppression] else []) @
     [SET_AGC (if float_gt_zero auto_gain then 1 else 0)] @
     (if float_gt_zero auto_gain then [SET_AGC_LEVEL auto_gain] else [])"

fun requests_to :: "addr \<Rightarrow> call list \<Rightarrow> preprocess_request list" where
  "requests_to h [] = []"
| "requests_to h (Ctl h' r # cs) = (if h' = h then r # requests_to h cs else requests_to h cs)"
| "requests_to h (c # cs) = requests_to h cs"

text \<open>
  One chunk, and a queue of chunks, as a function of the contents of the processor's
  own state alone: no store, no other object.
\<close>

definition chunk_alone ::
  "'st speex \<Rightarrow> AudioProcessor \<Rightarrow> 'st \<Rightarrow> byte list \<Rightarrow> (error + byte list) \<times> 'st" where
  "chunk_alone lib this s chunk =
     (if int (length chunk) \<noteq> sint (m_chunk_size_bytes this)
      then (Inl (ShapeMismatch (int (length chunk)) (sint (m_chunk_size_bytes this))), s)
      else
        (let (s', out, vad) = run lib s (samples_of_bytes chunk)
         in (Inr (bytes_of_samples (write_back (samples_of_bytes chunk) out)), s')))"

fun feed_alone ::
  "'st speex \<Rightarrow> AudioProcessor \<Rightarrow> 'st \<Rightarrow> byte list list \<Rightarrow> (error + byte list) list" where
  "feed_alone lib this s [] = []"
| "feed_alone lib this s (c # cs) =
     (let (r, s') = chunk_alone lib this s c in r # feed_alone lib this s' cs)"

text \<open>
  The processor \<open>this\<close> is alive in the store, its state holds \<open>s\<close>, and its
  fields are what the constructor leaves in them.
\<close>

definition owns :: "'st world \<Rightarrow> AudioProcessor \<Rightarrow> 'st \<Rightarrow> bool" where
  "owns w this s =
     (heap w (state this) = Some (Preprocess s) \<and>
      0 < sint (m_chunk_size_samples this) \<and>
      m_chunk_size_bytes this = m_chunk_size_samples this * 2)"

subsection \<open>Concrete libraries and inputs\<close>

text \<open>
  A store with nothing in it, a library that counts the frames it has seen and adds
  the count to every sample, and a library that cannot allocate a state.
\<close>

definition empty_world :: "nat world" where
  "empty_world = \<lparr>heap = Map.empty, brk = 1, calls = []\<rparr>"

definition counting_lib :: "nat speex" where
  "counting_lib =
     \<lparr>state_init = (\<lambda>frame_size sampling_rate. Some 0),
      ctl = (\<lambda>s req. s),
      run = (\<lambda>s buf. (Suc s, map (\<lambda>x. x + of_nat (Suc s)) buf, 1))\<rparr>"

definition exhausted_lib :: "nat speex" where
  "exhausted_lib =
     \<lparr>state_init = (\<lambda>frame_size sampling_rate. None),
      ctl = (\<lambda>s req. s),
      run = (\<lambda>s buf. (s, buf, 0))\<rparr>"

text \<open>
  A chunk of \<open>2 ^ 30\<close> samples and \<open>2 ^ 31\<close> bytes of silence for it, with the
  processor and the store that the constructor makes of it (\<open>huge_init\<close> below).
\<close>

definition huge_chunk :: cint where
  "huge_chunk = 1073741824"

definition huge_input :: "byte list" where
  "huge_input = replicate 2147483648 0"

definition huge_processor :: AudioProcessor where
  "huge_processor =
     \<lparr>state = 1, m_chunk_size_samples = huge_chunk, m_chunk_size_bytes = huge_chunk * 2\<rparr>"

definition huge_world :: "nat world" where
  "huge_world =
     \<lparr>heap = [1 \<mapsto> Preprocess 0], brk = 2,
      calls = [StateInit huge_chunk 16000 1, Ctl 1 (SET_DENOISE 0), Ctl 1 (SET_AGC 0)]\<rparr>"

text \<open>
  A chunk of two samples: the processor and the store that the constructor makes with
  gain 3 and suppression 7 (\<open>small_init\<close> below), four bytes of input, the store
  holding them, and a second processor made the same way in the same store.
\<close>

definition small_processor :: AudioProcessor where
  "small_processor = \<lparr>state = 1, m_chunk_size_samples = 2, m_chunk_size_bytes = 4\<rparr>"

definition small_world :: "nat world" where
  "small_world =
     \<lparr>heap = [1 \<mapsto> Preprocess 0], brk = 2,
      calls = [StateInit 2 16000 1, Ctl 1 (SET_DENOISE 1), Ctl 1 (SET_NOISE_SUPPRESS 7),
               Ctl 1 (SET_AGC 1), Ctl 1 (SET_AGC_LEVEL (Finite 3))]\<rparr>"

definition small_input :: "byte list" where
  "small_input = [1, 2, 3, 4]"

definition small_call_world :: "nat world" where
  "small_call_world =
     small_world\<lparr>heap := (heap small_world)(2 \<mapsto> PyBytes small_input), brk := 3\<rparr>"

definition second_processor :: AudioProcessor where
  "second_processor = \<lparr>state = 2, m_chunk_size_samples = 2, m_chunk_size_bytes = 4\<rparr>"

definition two_world :: "nat world" where
  "two_world = snd (AudioProcessor_init counting_lib 2 (Finite 3) 7 small_world)"

section \<open>Properties\<close>

subsection \<open>Bytes and samples\<close>

lemma length_bytes_of_samples: "length (bytes_of_samples v) = 2 * length v"
  by (induction v) auto

lemma length_samples_of_bytes: "length (samples_of_bytes bs) = length bs div 2"
  by (induction bs rule: samples_of_bytes.induct) auto

lemma sample_of_split: "sample_of (ucast s) (ucast (drop_bit 8 s)) = s"
  unfolding sample_of_def
  by (rule bit_word_eqI) (auto simp: bit_simps)

lemma low_byte_sample_of: "ucast (sample_of lo hi) = lo"
  unfolding sample_of_def
  by (rule bit_word_eqI) (auto simp: bit_simps)

lemma high_byte_sample_of: "ucast (drop_bit 8 (sample_of lo hi)) = hi"
  unfolding sample_of_def
  by (rule bit_word_eqI) (auto simp: bit_simps dest: bit_imp_le_length)

lemma samples_of_bytes_of_samples: "samples_of_bytes (bytes_of_samples v) = v"
  by (induction v) (auto simp: sample_of_split)

lemma bytes_of_samples_of_bytes:
  "even (length bs) \<Longrightarrow> bytes_of_samples (samples_of_bytes bs) = bs"
  by (induction bs rule: samples_of_bytes.induct)
    (auto simp: low_byte_sample_of high_byte_sample_of)

lemma length_write_back: "length (write_back buf out) = length buf"
  by (auto simp: write_back_def)

lemma write_back_same_length: "length out = length buf \<Longrightarrow> write_back buf out = out"
  by (auto simp: write_back_def)

subsection \<open>The byte size in 32 bits\<close>

lemma sint_double: "sint (n * 2 :: cint) = signed_take_bit 31 (2 * sint n)"
  by (simp add: sint_word_ariths mult.commute)

lemma double_exact:
  fixes n :: cint
  assumes "0 < sint n" "sint n < 2 ^ 30"
  shows "sint (n * 2) = 2 * sint n"
  unfolding sint_double using assms
  by (intro signed_take_bit_int_eq_self) auto

lemma double_wraps_negative:
  fixes n :: cint
  assumes "2 ^ 30 \<le> sint n"
  shows "sint (n * 2) < 0"
proof -
  have "sint n < 2147483648" using sint_lt [of n] by simp
  moreover have "signed_take_bit 31 (2 * sint n) \<le> 2 * sint n - 2 ^ Suc 31"
    using assms by (intro signed_take_bit_int_less_eq) simp
  then have "signed_take_bit 31 (2 * sint n) \<le> 2 * sint n - 4294967296"
    by simp
  ultimately have "signed_take_bit 31 (2 * sint n) < 0" by linarith
  then show ?thesis unfolding sint_double .
qed

lemma double_nonneg_exact:
  fixes n :: cint
  assumes "0 < sint n" "0 \<le> sint (n * 2)"
  shows "sint n < 2 ^ 30" and "sint (n * 2) = 2 * sint n"
proof -
  show *: "sint n < 2 ^ 30"
    using double_wraps_negative [of n] assms(2) by fastforce
  show "sint (n * 2) = 2 * sint n"
    using double_exact [OF assms(1) *] .
qed

subsection \<open>The store\<close>

lemma wf_fresh: "wf_world w \<Longrightarrow> heap w (brk w) = None"
  by (auto simp: wf_world_def)

lemma wf_allocated: "wf_world w \<Longrightarrow> heap w a = Some v \<Longrightarrow> 0 < a \<and> a < brk w"
  by (auto simp: wf_world_def)

subsection \<open>The constructor, case by case\<close>

lemma init_nonpositive:
  "sint n \<le> 0 \<Longrightarrow> AudioProcessor_init lib n g ns w = (Inl InvalidArgument, w)"
  by (simp add: AudioProcessor_init_def)

lemma init_null:
  assumes "0 < sint n" "state_init lib n 16000 = None"
  shows "AudioProcessor_init lib n g ns w =
           (Inl InitializationFailure, w\<lparr>calls := calls w @ [StateInit n 16000 0]\<rparr>)"
  using assms by (simp add: AudioProcessor_init_def speex_preprocess_state_init_def)

lemma ctl_at_state:
  "heap w h = Some (Preprocess s) \<Longrightarrow>
   speex_preprocess_ctl lib h req w =
     w\<lparr>heap := (heap w)(h \<mapsto> Preprocess (ctl lib s req)), calls := calls w @ [Ctl h req]\<rparr>"
  by (simp add: speex_preprocess_ctl_def)

lemma init_ok:
  assumes "0 < sint n" "state_init lib n 16000 = Some s" "0 < brk w"
  shows "AudioProcessor_init lib n g ns w =
           (Inr \<lparr>state = brk w, m_chunk_size_samples = n, m_chunk_size_bytes = n * 2\<rparr>,
            w\<lparr>heap := (heap w)(brk w \<mapsto> Preprocess (foldl (ctl lib) s (init_requests g ns))),
              brk := Suc (brk w),
              calls := calls w @ StateInit n 16000 (brk w) # map (Ctl (brk w)) (init_requests g ns)\<rparr>)"
  using assms
  by (simp add: AudioProcessor_init_def speex_preprocess_state_init_def alloc_def
      ctl_at_state init_requests_def Let_def)

subsection \<open>ProcessChunk, case by case\<close>

lemma ProcessChunk_not_bytes:
  "(\<And>bs. heap w a \<noteq> Some (PyBytes bs)) \<Longrightarrow> ProcessChunk lib this a w = (Inl NotBytes, w)"
  by (auto simp: ProcessChunk_def split: option.splits obj.splits)

lemma ProcessChunk_mismatch:
  assumes "heap w a = Some (PyBytes bs)" "int (length bs) \<noteq> sint (m_chunk_size_bytes this)"
  shows "ProcessChunk lib this a w =
           (Inl (ShapeMismatch (int (length bs)) (sint (m_chunk_size_bytes this))), w)"
  using assms by (simp add: ProcessChunk_def ProcessChunk_checked_def request_def)

lemma ProcessChunk_accepts:
  assumes wf: "wf_world w"
    and inp: "heap w a = Some (PyBytes bs)"
    and st: "heap w (state this) = Some (Preprocess s)"
    and pos: "0 < sint (m_chunk_size_samples this)"
    and twice: "m_chunk_size_bytes this = m_chunk_size_samples this * 2"
    and len: "int (length bs) = sint (m_chunk_size_bytes this)"
    and run: "run lib s (samples_of_bytes bs) = (s', out, vad)"
  shows "ProcessChunk lib this a w =
           (Inr \<lparr>audio = Suc (brk w)\<rparr>,
            w\<lparr>heap := (heap w)(state this \<mapsto> Preprocess s',
                 Suc (brk w) \<mapsto> PyBytes (bytes_of_samples (write_back (samples_of_bytes bs) out))),
              brk := Suc (Suc (brk w)),
              calls := calls w @ [Run (state this) (brk w) (samples_of_bytes bs)]\<rparr>)"
proof -
  let ?n = "nat (sint (m_chunk_size_samples this))"
  have exact: "sint (m_chunk_size_bytes this) = 2 * sint (m_chunk_size_samples this)"
    using double_nonneg_exact(2) [OF pos] len twice by simp
  have nbytes: "nat (sint (m_chunk_size_bytes this)) = length bs"
    using len by simp
  have len2: "length bs = 2 * ?n"
    using exact len pos by linarith
  have fresh: "heap w (brk w) = None" "brk w \<noteq> a" "brk w \<noteq> state this"
    using wf_fresh [OF wf] inp st by auto
  have nsamples: "length (samples_of_bytes bs) = ?n"
    using len2 by (simp add: length_samples_of_bytes)
  have out_len: "take (length bs) (bytes_of_samples (write_back (samples_of_bytes bs) out))
                   = bytes_of_samples (write_back (samples_of_bytes bs) out)"
    using len2 nsamples by (simp add: length_bytes_of_samples length_write_back)
  have heap_eq: "(heap w)(state this \<mapsto> P, Suc (brk w) \<mapsto> B, brk w := None)
                 = (heap w)(state this \<mapsto> P, Suc (brk w) \<mapsto> B)" for P B
    using fresh by (auto simp: fun_eq_iff)
  have tail: "drop (length bs) (bytes_of_samples (replicate ?n 0)) = []"
    using len2 by (simp add: length_bytes_of_samples)
  show ?thesis
    using inp st fresh run
    by (simp add: ProcessChunk_def ProcessChunk_checked_def request_def alloc_def memcpy_def
        speex_preprocess_run_def free_def len nbytes tail out_len heap_eq)
qed

lemma ProcessChunk_view_is_flat:
  "fst (ProcessChunk lib this a w) \<noteq> Inl NotOneDimensional"
  by (auto simp: ProcessChunk_def ProcessChunk_checked_def request_def Let_def
      split: option.splits obj.splits prod.splits)

subsection \<open>The concrete store\<close>

lemma wf_empty_world: "wf_world empty_world"
  by (simp add: wf_world_def empty_world_def)


lemma huge_sizes:
  "sint huge_chunk = 1073741824" "sint (huge_chunk * 2) = - 2147483648"
  "int (length huge_input) = 2147483648"
  by (simp_all add: huge_chunk_def huge_input_def)

lemma huge_init:
  "AudioProcessor_init counting_lib huge_chunk (Finite 0) 0 empty_world = (Inr huge_processor, huge_world)"
proof -
  have "0 < sint huge_chunk" by (simp add: huge_chunk_def)
  moreover have "state_init counting_lib huge_chunk 16000 = Some 0"
    by (simp add: counting_lib_def)
  moreover have "0 < brk empty_world" by (simp add: empty_world_def)
  ultimately show ?thesis
    by (simp add: init_ok init_requests_def huge_processor_def huge_world_def empty_world_def
        counting_lib_def)
qed

lemma huge_rejected:
  assumes "heap w a = Some (PyBytes huge_input)"
  shows "ProcessChunk lib huge_processor a w =
           (Inl (ShapeMismatch 2147483648 (- 2147483648)), w)"
proof -
  have "int (length huge_input) \<noteq> sint (m_chunk_size_bytes huge_processor)"
    by (simp add: huge_sizes huge_processor_def)
  from ProcessChunk_mismatch [OF assms this, where lib = lib]
  show ?thesis by (simp add: huge_sizes huge_processor_def)
qed

lemma small_init:
  "AudioProcessor_init counting_lib 2 (Finite 3) 7 empty_world = (Inr small_processor, small_world)"
proof -
  have "0 < sint (2 :: cint)" by simp
  moreover have "state_init counting_lib 2 16000 = Some 0"
    by (simp add: counting_lib_def)
  moreover have "0 < brk empty_world" by (simp add: empty_world_def)
  ultimately show ?thesis
    by (simp add: init_ok init_requests_def small_processor_def small_world_def empty_world_def
        counting_lib_def)
qed

lemma small_init_again:
  "AudioProcessor_init counting_lib 2 (Finite 3) 7 small_world = (Inr second_processor, two_world)"
proof -
  have "0 < sint (2 :: cint)" by simp
  moreover have "state_init counting_lib 2 16000 = Some 0"
    by (simp add: counting_lib_def)
  moreover have "0 < brk small_world" by (simp add: small_world_def)
  ultimately have "fst (AudioProcessor_init counting_lib 2 (Finite 3) 7 small_world) = Inr second_processor"
    by (simp add: init_ok second_processor_def small_world_def)
  then show ?thesis by (simp add: two_world_def prod_eq_iff)
qed

lemma small_call_world_facts:
  "wf_world small_call_world"
  "heap small_call_world 2 = Some (PyBytes small_input)"
  "heap small_call_world (state small_processor) = Some (Preprocess 0)"
  "alloc (PyBytes small_input) small_world = (2, small_call_world)"
  by (auto simp: small_call_world_def small_world_def small_processor_def wf_world_def alloc_def)

subsection \<open>What a successful construction leaves\<close>

lemma init_null_address:
  assumes "0 < sint n" "brk w = 0"
  shows "fst (AudioProcessor_init lib n g ns w) = Inl InitializationFailure"
  using assms
  by (cases "state_init lib n 16000")
    (simp_all add: AudioProcessor_init_def speex_preprocess_state_init_def alloc_def)

lemma init_Inr:
  assumes "AudioProcessor_init lib n g ns w = (Inr this, w')"
  shows "0 < sint n" and "0 < brk w" and "\<exists>s. state_init lib n 16000 = Some s"
    and "this = \<lparr>state = brk w, m_chunk_size_samples = n, m_chunk_size_bytes = n * 2\<rparr>"
proof -
  show pos: "0 < sint n"
    using assms init_nonpositive [of n lib g ns w] by (cases "sint n \<le> 0") auto
  show ex: "\<exists>s. state_init lib n 16000 = Some s"
    using assms pos init_null [of n lib g ns w] by (cases "state_init lib n 16000") auto
  then obtain s where s: "state_init lib n 16000 = Some s" ..
  show brk: "0 < brk w"
    using assms init_null_address [OF pos, of w lib g ns] by (cases "brk w = 0") auto
  show "this = \<lparr>state = brk w, m_chunk_size_samples = n, m_chunk_size_bytes = n * 2\<rparr>"
    using assms init_ok [OF pos s brk, of g ns] by simp
qed

lemma init_invariant:
  assumes "AudioProcessor_init lib n g ns w = (Inr this, w')" "sint n < 2 ^ 30"
  shows "m_chunk_size_samples this = n \<and> 0 < sint (m_chunk_size_samples this) \<and>
         sint (m_chunk_size_bytes this) = 2 * sint (m_chunk_size_samples this)"
  using init_Inr(1,4) [OF assms(1)] assms(2) by (simp add: double_exact)

lemma requests_to_map_Ctl: "requests_to h (map (Ctl h) rs) = rs"
  by (induction rs) auto

lemma init_calls:
  assumes "AudioProcessor_init lib n g ns w = (Inr this, w')"
  shows "calls w' = calls w @ StateInit n 16000 (state this) # map (Ctl (state this)) (init_requests g ns)"
    and "\<exists>s. state_init lib n 16000 = Some s \<and>
             heap w' (state this) = Some (Preprocess (foldl (ctl lib) s (init_requests g ns)))"
proof -
  from init_Inr [OF assms] obtain s where
    pos: "0 < sint n" and brk: "0 < brk w" and s: "state_init lib n 16000 = Some s"
    by blast
  from assms init_ok [OF pos s brk, of g ns]
  have p: "this = \<lparr>state = brk w, m_chunk_size_samples = n, m_chunk_size_bytes = n * 2\<rparr>"
    and w': "w' = w\<lparr>heap := (heap w)(brk w \<mapsto> Preprocess (foldl (ctl lib) s (init_requests g ns))),
              brk := Suc (brk w),
              calls := calls w @ StateInit n 16000 (brk w) # map (Ctl (brk w)) (init_requests g ns)\<rparr>"
    by simp_all
  show "calls w' = calls w @ StateInit n 16000 (state this) # map (Ctl (state this)) (init_requests g ns)"
    by (simp add: p w')
  show "\<exists>s. state_init lib n 16000 = Some s \<and>
             heap w' (state this) = Some (Preprocess (foldl (ctl lib) s (init_requests g ns)))"
    using s by (simp add: p w')
qed

lemma init_world:
  assumes made: "AudioProcessor_init lib n g ns w = (Inr this, w')" and wf: "wf_world w"
    and s: "state_init lib n 16000 = Some s"
  shows "wf_world w'" and "owns w' this (foldl (ctl lib) s (init_requests g ns))"
    and "state this = brk w" and "brk w' = Suc (brk w)"
    and "\<And>h. h < brk w \<Longrightarrow> heap w' h = heap w h"
proof -
  from init_Inr [OF made] have pos: "0 < sint n" and brk: "0 < brk w" by blast+
  from made init_ok [OF pos s brk, of g ns]
  have p: "this = \<lparr>state = brk w, m_chunk_size_samples = n, m_chunk_size_bytes = n * 2\<rparr>"
    and w': "w' = w\<lparr>heap := (heap w)(brk w \<mapsto> Preprocess (foldl (ctl lib) s (init_requests g ns))),
              brk := Suc (brk w),
              calls := calls w @ StateInit n 16000 (brk w) # map (Ctl (brk w)) (init_requests g ns)\<rparr>"
    by simp_all
  show "wf_world w'" using wf brk by (auto simp: w' wf_world_def)
  show "owns w' this (foldl (ctl lib) s (init_requests g ns))"
    using pos by (simp add: owns_def p w')
  show "state this = brk w" by (simp add: p)
  show "brk w' = Suc (brk w)" by (simp add: w')
  show "\<And>h. h < brk w \<Longrightarrow> heap w' h = heap w h" by (simp add: w')
qed

subsection \<open>The size check and the size of the result\<close>

lemma accepted_length:
  fixes n :: cint
  assumes "0 < sint n" "int (length bs) = sint (n * 2)"
  shows "length bs = 2 * nat (sint n)" and "even (length bs)"
    and "length (samples_of_bytes bs) = nat (sint n)"
proof -
  have "0 \<le> sint (n * 2)" using assms(2) by linarith
  from double_nonneg_exact(2) [OF assms(1) this] assms
  show *: "length bs = 2 * nat (sint n)" by linarith
  then show "even (length bs)" by simp
  from * show "length (samples_of_bytes bs) = nat (sint n)"
    by (simp add: length_samples_of_bytes)
qed

text \<open>
  Below \<open>2 ^ 30\<close> samples the check is the one the documentation describes: the input
  is refused exactly when its length is not twice the number of samples.
\<close>

lemma shape_check:
  assumes made: "AudioProcessor_init lib n g ns w0 = (Inr this, w1)"
    and small: "sint n < 2 ^ 30"
    and inp: "heap w a = Some (PyBytes bs)"
  shows "is_ShapeMismatch (fst (ProcessChunk lib this a w)) \<longleftrightarrow> int (length bs) \<noteq> 2 * sint n"
proof -
  from init_invariant [OF made small]
  have bytes: "sint (m_chunk_size_bytes this) = 2 * sint n" by simp
  show ?thesis
  proof (cases "int (length bs) = 2 * sint n")
    case True
    then have "\<exists>res. fst (ProcessChunk lib this a w) = Inr res"
      using inp bytes
      by (simp add: ProcessChunk_def ProcessChunk_checked_def request_def split_beta Let_def)
    with True show ?thesis by auto
  next
    case False
    with ProcessChunk_mismatch [OF inp, where this = this and lib = lib] bytes
    show ?thesis by simp
  qed
qed

text \<open>
  An input that passes the check gives a result of the same length, and that length
  is twice the number of samples, for every processor the constructor has made.
\<close>

lemma result_size:
  assumes made: "AudioProcessor_init lib n g ns w0 = (Inr this, w1)"
    and wf: "wf_world w"
    and inp: "heap w a = Some (PyBytes bs)"
    and st: "heap w (state this) = Some (Preprocess s)"
    and acc: "int (length bs) = sint (m_chunk_size_bytes this)"
  shows "\<exists>res. fst (ProcessChunk lib this a w) = Inr res \<and>
           length (bytes_at (snd (ProcessChunk lib this a w)) (audio res)) = length bs \<and>
           int (length bs) = 2 * sint n"
proof -
  from init_Inr [OF made]
  have pos: "0 < sint n"
    and p: "this = \<lparr>state = brk w0, m_chunk_size_samples = n, m_chunk_size_bytes = n * 2\<rparr>"
    by blast+
  have pos': "0 < sint (m_chunk_size_samples this)"
    and twice: "m_chunk_size_bytes this = m_chunk_size_samples this * 2"
    using pos by (simp_all add: p)
  obtain s' out vad where run: "run lib s (samples_of_bytes bs) = (s', out, vad)"
    by (cases "run lib s (samples_of_bytes bs)") auto
  have len: "int (length bs) = sint (n * 2)" using acc by (simp add: p)
  note sizes = accepted_length [OF pos len]
  show ?thesis
    using sizes pos
    by (simp add: ProcessChunk_accepts [OF wf inp st pos' twice acc run] bytes_at_def
        length_bytes_of_samples length_write_back)
qed

subsection \<open>One processor among others\<close>

lemma submit_alone:
  assumes wf: "wf_world w" and own: "owns w this s"
  shows "fst (submit lib this c w) = fst (chunk_alone lib this s c)"
    and "wf_world (snd (submit lib this c w))"
    and "owns (snd (submit lib this c w)) this (snd (chunk_alone lib this s c))"
    and "brk w \<le> brk (snd (submit lib this c w))"
    and "\<And>h. h \<noteq> state this \<Longrightarrow> h < brk w \<Longrightarrow> heap (snd (submit lib this c w)) h = heap w h"
proof -
  let ?w1 = "w\<lparr>heap := (heap w)(brk w \<mapsto> PyBytes c), brk := Suc (brk w)\<rparr>"
  have st: "heap w (state this) = Some (Preprocess s)"
    and pos: "0 < sint (m_chunk_size_samples this)"
    and twice: "m_chunk_size_bytes this = m_chunk_size_samples this * 2"
    using own by (simp_all add: owns_def)
  have al: "alloc (PyBytes c) w = (brk w, ?w1)" by (simp add: alloc_def)
  have wf1: "wf_world ?w1" using wf by (auto simp: wf_world_def)
  have neq: "brk w \<noteq> state this" using wf_fresh [OF wf] st by auto
  have inp1: "heap ?w1 (brk w) = Some (PyBytes c)" by simp
  have st1: "heap ?w1 (state this) = Some (Preprocess s)" using st neq by simp
  have "fst (submit lib this c w) = fst (chunk_alone lib this s c) \<and>
        wf_world (snd (submit lib this c w)) \<and>
        owns (snd (submit lib this c w)) this (snd (chunk_alone lib this s c)) \<and>
        brk w \<le> brk (snd (submit lib this c w)) \<and>
        (\<forall>h. h \<noteq> state this \<longrightarrow> h < brk w \<longrightarrow> heap (snd (submit lib this c w)) h = heap w h)"
  proof (cases "int (length c) = sint (m_chunk_size_bytes this)")
    case False
    from ProcessChunk_mismatch [OF inp1, where this = this and lib = lib] False
    have "submit lib this c w =
            (Inl (ShapeMismatch (int (length c)) (sint (m_chunk_size_bytes this))), ?w1)"
      by (simp add: submit_def al)
    then show ?thesis
      using False wf1 st1 pos twice by (simp add: chunk_alone_def owns_def)
  next
    case True
    obtain s' out vad where run: "run lib s (samples_of_bytes c) = (s', out, vad)"
      by (cases "run lib s (samples_of_bytes c)") auto
    let ?res = "bytes_of_samples (write_back (samples_of_bytes c) out)"
    let ?w2 = "?w1\<lparr>heap := (heap ?w1)(state this \<mapsto> Preprocess s', Suc (brk ?w1) \<mapsto> PyBytes ?res),
                  brk := Suc (Suc (brk ?w1)),
                  calls := calls ?w1 @ [Run (state this) (brk ?w1) (samples_of_bytes c)]\<rparr>"
    from ProcessChunk_accepts [OF wf1 inp1 st1 pos twice _ run] True
    have pc: "ProcessChunk lib this (brk w) ?w1 = (Inr \<lparr>audio = Suc (brk ?w1)\<rparr>, ?w2)"
      by simp
    have sub: "submit lib this c w = (Inr ?res, ?w2)"
      by (simp add: submit_def al pc bytes_at_def)
    have alone: "chunk_alone lib this s c = (Inr ?res, s')"
      using True run by (simp add: chunk_alone_def)
    have wf2: "wf_world ?w2"
      using wf wf_allocated [OF wf st] by (auto simp: wf_world_def)
    have own2: "owns ?w2 this s'"
      using pos twice wf_allocated [OF wf st] by (simp add: owns_def)
    show ?thesis
      unfolding sub alone using wf2 own2 by simp
  qed
  then show "fst (submit lib this c w) = fst (chunk_alone lib this s c)"
    and "wf_world (snd (submit lib this c w))"
    and "owns (snd (submit lib this c w)) this (snd (chunk_alone lib this s c))"
    and "brk w \<le> brk (snd (submit lib this c w))"
    and "\<And>h. h \<noteq> state this \<Longrightarrow> h < brk w \<Longrightarrow> heap (snd (submit lib this c w)) h = heap w h"
    by simp_all
qed

lemma submit_other:
  assumes wf: "wf_world w" and own: "owns w this s" and other: "owns w that t"
    and apart: "state this \<noteq> state that"
  shows "owns (snd (submit lib this c w)) that t"
proof -
  have "state that < brk w"
    using wf_allocated [OF wf] other by (auto simp: owns_def)
  with submit_alone(5) [OF wf own, where h = "state that" and lib = lib and c = c] apart other
  show ?thesis by (simp add: owns_def)
qed

lemma feed_alone_eq:
  assumes "wf_world w" "owns w this s"
  shows "fst (feed lib this cs w) = feed_alone lib this s cs"
  using assms
proof (induction cs arbitrary: w s)
  case Nil
  then show ?case by simp
next
  case (Cons c cs)
  note sub = submit_alone [OF Cons.prems, where lib = lib and c = c]
  from Cons.IH [OF sub(2) sub(3)] sub(1)
  show ?case by (simp add: split_beta Let_def)
qed

lemma feed_keeps:
  assumes "wf_world w" "owns w this s" "owns w that t" "state this \<noteq> state that"
  shows "wf_world (snd (feed lib this cs w)) \<and> owns (snd (feed lib this cs w)) that t"
  using assms
proof (induction cs arbitrary: w s)
  case Nil
  then show ?case by simp
next
  case (Cons c cs)
  note sub = submit_alone [OF Cons.prems(1,2), where lib = lib and c = c]
  note oth = submit_other [OF Cons.prems, where lib = lib and c = c]
  from Cons.IH [OF sub(2) sub(3) oth Cons.prems(4)]
  show ?case by (simp add: split_beta Let_def)
qed

text \<open>
  Under any schedule each of two processors in one store returns what it would return
  from its own state alone.
\<close>

lemma feed2_alone:
  assumes "wf_world w" "owns w p1 s1" "owns w p2 s2" "state p1 \<noteq> state p2"
  shows "fst (feed2 lib p1 p2 sched cs1 cs2 w) = (feed_alone lib p1 s1 cs1, feed_alone lib p2 s2 cs2)"
  using assms
proof (induction lib p1 p2 sched cs1 cs2 w arbitrary: s1 s2 rule: feed2.induct)
  case (1 lib p1 p2 cs1 cs2 w)
  from feed_keeps [OF "1.prems", where lib = lib and cs = cs1]
  have "wf_world (snd (feed lib p1 cs1 w))" "owns (snd (feed lib p1 cs1 w)) p2 s2"
    by simp_all
  from feed_alone_eq [OF this, where lib = lib and cs = cs2]
    feed_alone_eq [OF "1.prems"(1,2), where lib = lib and cs = cs1]
  show ?case by (simp add: split_beta Let_def)
next
  case (2 lib p1 p2 sched c cs1 cs2 w)
  note sub = submit_alone [OF "2.prems"(1,2), where lib = lib and c = c]
  note oth = submit_other [OF "2.prems", where lib = lib and c = c]
  from "2.IH" [OF refl prod.collapse sub(2) sub(3) oth "2.prems"(4)] sub(1)
  show ?case by (simp add: split_beta Let_def)
next
  case (3 lib p1 p2 sched cs2 w)
  then show ?case by simp
next
  case (4 lib p1 p2 sched cs1 c cs2 w)
  note sub = submit_alone [OF "4.prems"(1,3), where lib = lib and c = c]
  note oth = submit_other [OF "4.prems"(1,3,2) "4.prems"(4) [symmetric], where lib = lib and c = c]
  from "4.IH" [OF refl prod.collapse sub(2) oth sub(3) "4.prems"(4)] sub(1)
  show ?case by (simp add: split_beta Let_def)
next
  case (5 lib p1 p2 sched cs1 w)
  then show ?case by simp
qed

text \<open>
  The binding adds nothing of its own to the samples: when the library leaves the
  buffer as it found it, the result is the input, byte for byte.
\<close>

lemma chunk_alone_unchanged:
  assumes "0 < sint (m_chunk_size_samples this)"
    and "m_chunk_size_bytes this = m_chunk_size_samples this * 2"
    and "int (length c) = sint (m_chunk_size_bytes this)"
    and "run lib s (samples_of_bytes c) = (s', samples_of_bytes c, vad)"
  shows "chunk_alone lib this s c = (Inr c, s')"
proof -
  from accepted_length(2) [OF assms(1), of c] assms(2,3)
  have "even (length c)" by simp
  then show ?thesis
    using assms(3,4)
    by (simp add: chunk_alone_def write_back_same_length bytes_of_samples_of_bytes)
qed

subsection \<open>The two-sample processor at work\<close>

lemma small_samples: "samples_of_bytes small_input = [513, 1027]"
  by (simp add: small_input_def sample_of_def)

lemma small_run:
  "run counting_lib 0 (samples_of_bytes small_input) = (1, [514, 1028], 1)"
  by (simp add: small_samples counting_lib_def)

lemma small_out: "bytes_of_samples (write_back [513, 1027] [514, 1028]) = [2, 2, 4, 4]"
  by (simp add: write_back_def)

lemma small_call:
  "ProcessChunk counting_lib small_processor 2 small_call_world =
     (Inr \<lparr>audio = 4\<rparr>,
      small_call_world\<lparr>heap := (heap small_call_world)(1 \<mapsto> Preprocess 1, 4 \<mapsto> PyBytes [2, 2, 4, 4]),
        brk := 5,
        calls := calls small_call_world @ [Run 1 3 [513, 1027]]\<rparr>)"
proof -
  have pos: "0 < sint (m_chunk_size_samples small_processor)"
    and twice: "m_chunk_size_bytes small_processor = m_chunk_size_samples small_processor * 2"
    and len: "int (length small_input) = sint (m_chunk_size_bytes small_processor)"
    by (simp_all add: small_processor_def small_input_def)
  from ProcessChunk_accepts [OF small_call_world_facts(1-3) pos twice len small_run]
  show ?thesis
    by (simp add: small_samples small_out small_processor_def small_call_world_def eval_nat_numeral)
qed

lemma small_feed_alone:
  "feed_alone counting_lib small_processor 0 [small_input, small_input] =
     [Inr [2, 2, 4, 4], Inr [3, 2, 5, 4]]"
  by (simp add: chunk_alone_def small_samples small_processor_def small_input_def
      counting_lib_def write_back_def sample_of_def)

lemma small_feed:
  "fst (feed counting_lib small_processor [small_input, small_input] small_world) =
     [Inr [2, 2, 4, 4], Inr [3, 2, 5, 4]]"
proof -
  have "wf_world small_world"
    by (simp add: wf_world_def small_world_def)
  moreover have "owns small_world small_processor 0"
    by (simp add: owns_def small_world_def small_processor_def)
  ultimately have "fst (feed counting_lib small_processor [small_input, small_input] small_world) =
      feed_alone counting_lib small_processor 0 [small_input, small_input]"
    by (rule feed_alone_eq)
  then show ?thesis by (simp only: small_feed_alone)
qed

section \<open>The claims\<close>

subsection \<open>Construction\<close>

text \<open>
  Claim C3. Construction fails with \<open>InvalidArgument\<close> exactly when
  \<open>chunk_size_samples\<close> is zero or negative, and then it leaves the store as it found
  it: no preprocessor state is allocated and the library is not called.
\<close>

theorem init_invalid_argument_iff:
  "(fst (AudioProcessor_init lib n g ns w) = Inl InvalidArgument \<longleftrightarrow> sint n \<le> 0) \<and>
   (sint n \<le> 0 \<longrightarrow> snd (AudioProcessor_init lib n g ns w) = w)"
proof (cases "sint n \<le> 0")
  case True
  then show ?thesis by (simp add: init_nonpositive)
next
  case False
  then have "fst (AudioProcessor_init lib n g ns w) \<noteq> Inl InvalidArgument"
    by (simp add: AudioProcessor_init_def Let_def split: prod.splits)
  with False show ?thesis by simp
qed

theorem init_invalid_argument_iff_witness:
  "sint (- 5 :: cint) \<le> 0 \<and>
   AudioProcessor_init counting_lib (- 5) (Finite 3) 7 empty_world = (Inl InvalidArgument, empty_world) \<and>
   fst (AudioProcessor_init counting_lib 0 (Finite 3) 7 empty_world) = Inl InvalidArgument \<and>
   fst (AudioProcessor_init counting_lib 160 (Finite 3) 7 empty_world) \<noteq> Inl InvalidArgument"
  using init_invalid_argument_iff [of counting_lib "- 5" "Finite 3" 7 empty_world]
    init_invalid_argument_iff [of counting_lib 0 "Finite 3" 7 empty_world]
    init_invalid_argument_iff [of counting_lib 160 "Finite 3" 7 empty_world]
  by (simp add: prod_eq_iff)

text \<open>
  Claim C4, as stated: construction succeeds for every positive \<open>chunk_size_samples\<close>.
  It does not when the library returns \<^verbatim>\<open>NULL\<close>: the constructor checks the handle
  and throws.
\<close>

theorem init_fails_without_state:
  "fst (AudioProcessor_init exhausted_lib 160 (Finite 0) 0 empty_world) = Inl InitializationFailure"
  by (simp add: init_null exhausted_lib_def)

text \<open>
  Claim C4, amended. For a positive \<open>chunk_size_samples\<close>: if the library returns a
  state, construction succeeds and the processor keeps \<open>chunk_size_samples\<close>, and
  below \<open>2 ^ 30\<close> samples its byte size is twice that number; if the library returns
  \<^verbatim>\<open>NULL\<close>, construction fails with \<open>InitializationFailure\<close>.
\<close>

theorem init_succeeds:
  assumes "wf_world w" "0 < sint n"
  shows "(\<forall>s. state_init lib n 16000 = Some s \<longrightarrow>
            (\<exists>this w'. AudioProcessor_init lib n g ns w = (Inr this, w') \<and>
                        m_chunk_size_samples this = n \<and>
                        (sint n < 2 ^ 30 \<longrightarrow> sint (m_chunk_size_bytes this) = 2 * sint n))) \<and>
         (state_init lib n 16000 = None \<longrightarrow>
            fst (AudioProcessor_init lib n g ns w) = Inl InitializationFailure)"
  using assms by (auto simp: init_ok init_null wf_world_def double_exact)

theorem init_succeeds_witness:
  "wf_world empty_world \<and> 0 < sint (160 :: cint) \<and> sint (160 :: cint) < 2 ^ 30 \<and>
   state_init counting_lib 160 16000 = Some 0 \<and>
   (\<exists>this w'. AudioProcessor_init counting_lib 160 (Finite 0) 0 empty_world = (Inr this, w') \<and>
               m_chunk_size_samples this = 160 \<and> sint (m_chunk_size_bytes this) = 320) \<and>
   state_init exhausted_lib 160 16000 = None \<and>
   fst (AudioProcessor_init exhausted_lib 160 (Finite 0) 0 empty_world) = Inl InitializationFailure"
  using init_succeeds [of empty_world 160 counting_lib "Finite 0" 0]
    init_succeeds [of empty_world 160 exhausted_lib "Finite 0" 0]
  by (simp add: wf_empty_world counting_lib_def exhausted_lib_def)

text \<open>
  Claim C5. The chunk length in samples is positive and fixed at construction, and the
  stored chunk length in bytes is always exactly twice the chunk length in samples.
  The second part fails from \<open>2 ^ 30\<close> samples on: the constructor computes
  \<^verbatim>\<open>chunk_size_samples * 2\<close> in \<^verbatim>\<open>int\<close>, and for \<open>2 ^ 30\<close> samples the processor
  it returns has a byte length of \<open>- 2 ^ 31\<close>.
\<close>

theorem byte_size_wraps:
  "AudioProcessor_init counting_lib huge_chunk (Finite 0) 0 empty_world = (Inr huge_processor, huge_world) \<and>
   sint (m_chunk_size_samples huge_processor) = 1073741824 \<and>
   sint (m_chunk_size_bytes huge_processor) = - 2147483648"
  by (simp add: huge_init huge_sizes huge_processor_def)

text \<open>
  Claim C6. A successful construction sends the library, on the new state and on no
  other: the request to set denoising, with 1 if \<open>noise_suppression\<close> is not 0 and
  with 0 if it is; the suppression strength if and only if \<open>noise_suppression\<close> is not
  0, and then with that value; the request to set automatic gain control, with 1 if
  \<open>auto_gain > 0\<close> and with 0 otherwise; the gain level if and only if
  \<open>auto_gain > 0\<close>, and then with that value. The state the processor owns holds
  what the library makes of these requests, in this order, from a new state for the
  chunk length at 16000 Hz.
\<close>

theorem init_configures:
  assumes "AudioProcessor_init lib n g ns w = (Inr this, w')"
  shows "let rs = requests_to (state this) (drop (length (calls w)) (calls w')) in
           (\<forall>v. SET_DENOISE v \<in> set rs \<longleftrightarrow> v = (if ns = 0 then 0 else 1)) \<and>
           (\<forall>v. SET_NOISE_SUPPRESS v \<in> set rs \<longleftrightarrow> ns \<noteq> 0 \<and> v = ns) \<and>
           (\<forall>v. SET_AGC v \<in> set rs \<longleftrightarrow> v = (if float_gt_zero g then 1 else 0)) \<and>
           (\<forall>v. SET_AGC_LEVEL v \<in> set rs \<longleftrightarrow> float_gt_zero g \<and> v = g) \<and>
           (\<exists>s. state_init lib n 16000 = Some s \<and>
                heap w' (state this) = Some (Preprocess (foldl (ctl lib) s rs)))"
proof -
  have rs: "requests_to (state this) (drop (length (calls w)) (calls w')) = init_requests g ns"
    by (simp add: init_calls(1) [OF assms] requests_to_map_Ctl)
  show ?thesis
    unfolding rs Let_def using init_calls(2) [OF assms]
    by (auto simp: init_requests_def)
qed

theorem init_configures_witness:
  "AudioProcessor_init counting_lib 2 (Finite 3) 7 empty_world = (Inr small_processor, small_world) \<and>
   SET_DENOISE 1 \<in> set (requests_to 1 (calls small_world)) \<and>
   SET_NOISE_SUPPRESS 7 \<in> set (requests_to 1 (calls small_world)) \<and>
   SET_AGC 1 \<in> set (requests_to 1 (calls small_world)) \<and>
   SET_AGC_LEVEL (Finite 3) \<in> set (requests_to 1 (calls small_world))"
  using init_configures [OF small_init] small_init
  by (simp add: Let_def small_processor_def empty_world_def)

subsection \<open>The checks of ProcessChunk\<close>

text \<open>
  Claim C1. An input whose length is not \<open>chunk_size_samples * 2\<close> bytes is refused
  with \<open>ShapeMismatch\<close>, and an input of exactly that length is not. The second part
  fails from \<open>2 ^ 30\<close> samples on: the processor made for \<open>2 ^ 30\<close> samples refuses
  an input of \<open>2 ^ 31\<close> bytes, which is exactly twice its chunk length, with
  \<open>ShapeMismatch\<close>.
\<close>

theorem exact_length_rejected:
  "AudioProcessor_init counting_lib huge_chunk (Finite 0) 0 empty_world = (Inr huge_processor, huge_world) \<and>
   int (length huge_input) = 2 * sint huge_chunk \<and>
   submit counting_lib huge_processor huge_input huge_world =
     (Inl (ShapeMismatch 2147483648 (- 2147483648)),
      huge_world\<lparr>heap := (heap huge_world)(2 \<mapsto> PyBytes huge_input), brk := 3\<rparr>)"
proof -
  let ?w = "huge_world\<lparr>heap := (heap huge_world)(2 \<mapsto> PyBytes huge_input), brk := 3\<rparr>"
  have "heap ?w 2 = Some (PyBytes huge_input)" by simp
  then have "ProcessChunk counting_lib huge_processor 2 ?w =
      (Inl (ShapeMismatch 2147483648 (- 2147483648)), ?w)"
    by (rule huge_rejected)
  moreover have "alloc (PyBytes huge_input) huge_world = (2, ?w)"
    by (simp add: alloc_def huge_world_def)
  ultimately show ?thesis
    by (simp add: submit_def huge_init huge_sizes)
qed

text \<open>
  Claim C2. A correctly sized input gives a result whose only field is a byte
  sequence of \<open>chunk_size_samples * 2\<close> bytes. For the processor made for \<open>2 ^ 30\<close>
  samples, the input of \<open>2 ^ 31\<close> bytes has the correct size, and
  \<^verbatim>\<open>ProcessChunk\<close> returns an error for it, not a result.
\<close>

theorem no_result_for_correct_size:
  "int (length huge_input) = 2 * sint (m_chunk_size_samples huge_processor) \<and>
   heap (snd (alloc (PyBytes huge_input) huge_world)) 2 = Some (PyBytes huge_input) \<and>
   isl (fst (ProcessChunk counting_lib huge_processor 2 (snd (alloc (PyBytes huge_input) huge_world))))"
proof -
  let ?w = "snd (alloc (PyBytes huge_input) huge_world)"
  have inp: "heap ?w 2 = Some (PyBytes huge_input)"
    by (simp add: alloc_def huge_world_def)
  from huge_rejected [OF this, where lib = counting_lib] inp
  show ?thesis by (simp add: huge_sizes huge_processor_def)
qed

text \<open>
  Claim C10. A buffer view that is not one-dimensional makes \<^verbatim>\<open>ProcessChunk\<close> throw
  a \<^verbatim>\<open>std::runtime_error\<close> with the message "Input audio must be a 1D bytes array.",
  whatever the size of the view, and before anything else happens: the store is
  unchanged, so nothing was allocated, copied or passed to the library.
\<close>

theorem not_one_dimensional:
  "ndim input_buf_info \<noteq> 1 \<Longrightarrow>
   ProcessChunk_checked lib this input_buf_info w = (Inl NotOneDimensional, w) \<and>
   exception_class NotOneDimensional = runtime_error \<and>
   what NotOneDimensional = ''Input audio must be a 1D bytes array.''"
  by (simp add: ProcessChunk_checked_def)

theorem not_one_dimensional_witness:
  "ndim \<lparr>ptr = 1, ndim = 2, size = 7\<rparr> \<noteq> 1 \<and>
   ProcessChunk_checked counting_lib small_processor \<lparr>ptr = 1, ndim = 2, size = 7\<rparr> empty_world =
     (Inl NotOneDimensional, empty_world)"
  using not_one_dimensional [of "\<lparr>ptr = 1, ndim = 2, size = 7\<rparr>" counting_lib
      small_processor empty_world]
  by simp

subsection \<open>The caller's memory\<close>

text \<open>
  Claim C7. Every call of \<^verbatim>\<open>ProcessChunk\<close> on a processor that the constructor has
  made leaves the caller's \<^verbatim>\<open>bytes\<close> object as it was. A call that fails leaves
  the whole store as it was. A call that succeeds has called the library once, with the
  processor's state and a buffer at an address that was free before the call, so not
  the caller's; the buffer held \<open>chunk_size_samples\<close> samples, which are the input
  byte for byte; and the buffer is gone when the call returns.
\<close>

theorem input_not_touched:
  assumes made: "AudioProcessor_init lib n g ns w0 = (Inr this, w1)"
    and wf: "wf_world w"
    and inp: "heap w a = Some (PyBytes bs)"
    and st: "heap w (state this) = Some (Preprocess s)"
  shows "heap (snd (ProcessChunk lib this a w)) a = Some (PyBytes bs) \<and>
         (case fst (ProcessChunk lib this a w) of
            Inl e \<Rightarrow> snd (ProcessChunk lib this a w) = w
          | Inr res \<Rightarrow>
              calls (snd (ProcessChunk lib this a w)) =
                calls w @ [Run (state this) (brk w) (samples_of_bytes bs)] \<and>
              heap w (brk w) = None \<and> brk w \<noteq> a \<and>
              length (samples_of_bytes bs) = nat (sint n) \<and>
              bytes_of_samples (samples_of_bytes bs) = bs \<and>
              heap (snd (ProcessChunk lib this a w)) (brk w) = None)"
proof (cases "int (length bs) = sint (m_chunk_size_bytes this)")
  case False
  from ProcessChunk_mismatch [OF inp False, where lib = lib] inp show ?thesis by simp
next
  case True
  from init_Inr [OF made]
  have pos: "0 < sint n"
    and p: "this = \<lparr>state = brk w0, m_chunk_size_samples = n, m_chunk_size_bytes = n * 2\<rparr>"
    by blast+
  have pos': "0 < sint (m_chunk_size_samples this)"
    and twice: "m_chunk_size_bytes this = m_chunk_size_samples this * 2"
    using pos by (simp_all add: p)
  obtain s' out vad where run: "run lib s (samples_of_bytes bs) = (s', out, vad)"
    by (cases "run lib s (samples_of_bytes bs)") auto
  note result = ProcessChunk_accepts [OF wf inp st pos' twice True run]
  have len: "int (length bs) = sint (n * 2)" using True by (simp add: p)
  have fresh: "heap w (brk w) = None" "brk w \<noteq> a" "a \<noteq> Suc (brk w)" "a \<noteq> state this"
    "brk w \<noteq> state this"
    using wf_fresh [OF wf] wf_allocated [OF wf inp] inp st by auto
  show ?thesis
    using fresh inp accepted_length [OF pos len]
    by (simp add: result bytes_of_samples_of_bytes)
qed

theorem input_not_touched_witness:
  "AudioProcessor_init counting_lib 2 (Finite 3) 7 empty_world = (Inr small_processor, small_world) \<and>
   wf_world small_call_world \<and>
   heap small_call_world 2 = Some (PyBytes small_input) \<and>
   heap small_call_world (state small_processor) = Some (Preprocess 0) \<and>
   fst (ProcessChunk counting_lib small_processor 2 small_call_world) = Inr \<lparr>audio = 4\<rparr> \<and>
   heap (snd (ProcessChunk counting_lib small_processor 2 small_call_world)) 2 = Some (PyBytes small_input) \<and>
   calls (snd (ProcessChunk counting_lib small_processor 2 small_call_world)) =
     calls small_call_world @ [Run 1 3 (samples_of_bytes small_input)] \<and>
   bytes_of_samples (samples_of_bytes small_input) = small_input"
proof -
  note frame = input_not_touched [OF small_init small_call_world_facts(1-3)]
  have res: "fst (ProcessChunk counting_lib small_processor 2 small_call_world) = Inr \<lparr>audio = 4\<rparr>"
    by (simp add: small_call)
  have at: "state small_processor = 1" "brk small_call_world = 3"
    by (simp_all add: small_processor_def small_call_world_def)
  from frame res at small_call_world_facts(3) show ?thesis
    by (simp add: small_init small_call_world_facts(1,2))
qed

subsection \<open>Two processors\<close>

text \<open>
  Claim C9. Two processors constructed with the same parameters, one after the other
  in one store, and fed the same chunks give the same results, chunk by chunk, whatever
  the order in which their calls are interleaved. They do not share a state, and the
  first gives the results it gives when the second does not exist.
\<close>

theorem two_processors_agree:
  assumes wf: "wf_world w0"
    and first: "AudioProcessor_init lib n g ns w0 = (Inr p1, w1)"
    and second: "AudioProcessor_init lib n g ns w1 = (Inr p2, w2)"
  shows "state p1 \<noteq> state p2 \<and>
         fst (fst (feed2 lib p1 p2 sched cs cs w2)) = snd (fst (feed2 lib p1 p2 sched cs cs w2)) \<and>
         fst (fst (feed2 lib p1 p2 sched cs cs w2)) = fst (feed lib p1 cs w1)"
proof -
  from init_Inr(3) [OF first] obtain s where s: "state_init lib n 16000 = Some s" ..
  let ?s = "foldl (ctl lib) s (init_requests g ns)"
  note one = init_world [OF first wf s]
  note two = init_world [OF second one(1) s]
  have apart: "state p1 \<noteq> state p2"
    using one(3,4) two(3) by simp
  have "state p1 < brk w1" using one(3,4) by simp
  from two(5) [OF this] one(2)
  have own1: "owns w2 p1 ?s" by (simp add: owns_def)
  from feed2_alone [OF two(1) own1 two(2) apart, of lib sched cs cs]
  have "fst (feed2 lib p1 p2 sched cs cs w2) = (feed_alone lib p1 ?s cs, feed_alone lib p2 ?s cs)" .
  moreover have "feed_alone lib p1 ?s cs = feed_alone lib p2 ?s cs"
  proof -
    have "chunk_alone lib p1 = chunk_alone lib p2"
      using init_Inr(4) [OF first] init_Inr(4) [OF second]
      by (simp add: chunk_alone_def fun_eq_iff)
    then have "feed_alone lib p1 t cs = feed_alone lib p2 t cs" for t
      by (induction cs arbitrary: t) simp_all
    then show ?thesis .
  qed
  moreover have "fst (feed lib p1 cs w1) = feed_alone lib p1 ?s cs"
    by (rule feed_alone_eq [OF one(1,2)])
  ultimately show ?thesis using apart by simp
qed

theorem two_processors_agree_witness:
  "wf_world empty_world \<and>
   AudioProcessor_init counting_lib 2 (Finite 3) 7 empty_world = (Inr small_processor, small_world) \<and>
   AudioProcessor_init counting_lib 2 (Finite 3) 7 small_world = (Inr second_processor, two_world) \<and>
   fst (feed2 counting_lib small_processor second_processor [False, True]
          [small_input, small_input] [small_input, small_input] two_world) =
     ([Inr [2, 2, 4, 4], Inr [3, 2, 5, 4]], [Inr [2, 2, 4, 4], Inr [3, 2, 5, 4]])"
proof -
  let ?both = "feed2 counting_lib small_processor second_processor [False, True]
                 [small_input, small_input] [small_input, small_input] two_world"
  note agree = two_processors_agree [OF wf_empty_world small_init small_init_again,
      of "[False, True]" "[small_input, small_input]"]
  have one: "fst (fst ?both) = [Inr [2, 2, 4, 4], Inr [3, 2, 5, 4]]"
    by (metis agree small_feed)
  have two: "snd (fst ?both) = [Inr [2, 2, 4, 4], Inr [3, 2, 5, 4]]"
    by (metis agree one)
  from one two show ?thesis
    by (simp add: wf_empty_world small_init small_init_again prod_eq_iff
        del: feed.simps feed2.simps)
qed

end
